theory Spec2Isabelle
  imports Main "HOL-Library.AList"
begin

section \<open>JavaScript values\<close>

text \<open>
  The adapter (modules/videobyteBidAdapter.js) works on dynamically typed data: bid
  requests handed over by the host and the parsed JSON body of the endpoint's answer.
  Values are modelled as trees of JSON-like data.

  \<^item> An object is an association list in insertion order, read by its first entry for
    a key and written with \<open>AList.update\<close> (overwrite in place, else append).
  \<^item> The adapter never calculates: it copies numbers, tests them for truthiness and
    for being 1, prints the publisher id and sends the player size through
    \<open>parseInt\<close>. So a number is kept in the form that these operations read:
    \<open>JNum n\<close> is an integer that JavaScript prints as a plain decimal numeral (below
    \<open>10^21\<close> in size), \<open>JNaN\<close> is NaN, and \<open>JFloat s\<close> is any other number (a fraction,
    a larger integer, an infinity), given by the numeral \<open>s\<close> that JavaScript prints for
    it, as in \<open>JFloat ''2.5''\<close>. Such a number is never zero.
  \<^item> A string is a list of Isabelle characters.
  \<^item> Values are trees: two places of a bid request never hold the same object.
  \<^item> Properties inherited from prototypes are not modelled; none of the names the
    adapter reads is one.
\<close>

datatype jsval =
    JUndef
  | JNull
  | JBool bool
  | JNum int
  | JNaN
  | JFloat string
  | JStr string
  | JArr "jsval list"
  | JObj "(string \<times> jsval) list"

text \<open>
  What the adapter can throw: a \<open>TypeError\<close>, from reading a property of
  \<open>undefined\<close> or \<open>null\<close> or (the module is strict code) from writing a
  property of a primitive value. \<open>Unsupported\<close> is not a JavaScript outcome: it marks
  the one step that leaves the value space, storing a named property on an array.
\<close>

datatype js_error = TypeError | Unsupported

definition bind :: "js_error + 'a \<Rightarrow> ('a \<Rightarrow> js_error + 'b) \<Rightarrow> js_error + 'b" where
  "bind m f = (case m of Inl e \<Rightarrow> Inl e | Inr x \<Rightarrow> f x)"

fun truthy :: "jsval \<Rightarrow> bool" where
  "truthy JUndef = False"
| "truthy JNull = False"
| "truthy (JBool b) = b"
| "truthy (JNum n) = (n \<noteq> 0)"
| "truthy JNaN = False"
| "truthy (JFloat s) = True"
| "truthy (JStr s) = (s \<noteq> [])"
| "truthy (JArr xs) = True"
| "truthy (JObj kvs) = True"

fun nullish :: "jsval \<Rightarrow> bool" where
  "nullish JUndef = True"
| "nullish JNull = True"
| "nullish v = False"

text \<open>\<open>a || b\<close> on values that are already evaluated.\<close>

definition js_or :: "jsval \<Rightarrow> jsval \<Rightarrow> jsval" where
  "js_or a b = (if truthy a then a else b)"

text \<open>The entry of an object for a key, \<open>None\<close> when the object has no such own property.\<close>

fun own :: "jsval \<Rightarrow> string \<Rightarrow> jsval option" where
  "own (JObj kvs) k = map_of kvs k"
| "own v k = None"

text \<open>\<open>v.hasOwnProperty(k)\<close> for a name \<open>k\<close> that is neither \<open>length\<close> nor an index.\<close>

definition hasOwnProperty :: "jsval \<Rightarrow> string \<Rightarrow> bool" where
  "hasOwnProperty v k = (own v k \<noteq> None)"

text \<open>
  \<open>v.k\<close> for a name \<open>k\<close> that is not an index, on a value that is neither
  \<open>undefined\<close> nor \<open>null\<close>: the length of an array or a string, \<open>undefined\<close> for
  a missing property. On \<open>undefined\<close> and \<open>null\<close> the read throws a \<open>TypeError\<close>.
\<close>

definition lookup :: "(string \<times> jsval) list \<Rightarrow> string \<Rightarrow> jsval" where
  "lookup kvs k = (case map_of kvs k of None \<Rightarrow> JUndef | Some v \<Rightarrow> v)"

fun prop_of :: "jsval \<Rightarrow> string \<Rightarrow> jsval" where
  "prop_of (JObj kvs) k = lookup kvs k"
| "prop_of (JArr xs) k = (if k = ''length'' then JNum (int (length xs)) else JUndef)"
| "prop_of (JStr s) k = (if k = ''length'' then JNum (int (length s)) else JUndef)"
| "prop_of v k = JUndef"

definition get_prop :: "jsval \<Rightarrow> string \<Rightarrow> js_error + jsval" where
  "get_prop v k = (if nullish v then Inl TypeError else Inr (prop_of v k))"

text \<open>Decimal numerals, as \<open>Number.prototype.toString\<close> prints an integer.\<close>

definition digit_char :: "nat \<Rightarrow> char" where
  "digit_char d = ''0123456789'' ! d"

fun show_nat :: "nat \<Rightarrow> string" where
  "show_nat n = (if n < 10 then [digit_char n] else show_nat (n div 10) @ [digit_char (n mod 10)])"

declare show_nat.simps [simp del]

definition show_int :: "int \<Rightarrow> string" where
  "show_int i = (if i < 0 then CHR ''-'' # show_nat (nat (- i)) else show_nat (nat i))"

text \<open>\<open>v[i]\<close> for an index \<open>i\<close>, with the same \<open>TypeError\<close>.\<close>

fun elem_of :: "jsval \<Rightarrow> nat \<Rightarrow> jsval" where
  "elem_of (JArr xs) i = (if i < length xs then xs ! i else JUndef)"
| "elem_of (JStr s) i = (if i < length s then JStr [s ! i] else JUndef)"
| "elem_of (JObj kvs) i = lookup kvs (show_nat i)"
| "elem_of v i = JUndef"

definition get_index :: "jsval \<Rightarrow> nat \<Rightarrow> js_error + jsval" where
  "get_index v i = (if nullish v then Inl TypeError else Inr (elem_of v i))"

text \<open>
  \<open>v.k = x\<close> in strict code, for a name \<open>k\<close> that is not an index; the result is the
  object after the assignment.
\<close>

fun set_prop :: "jsval \<Rightarrow> string \<Rightarrow> jsval \<Rightarrow> js_error + jsval" where
  "set_prop (JObj kvs) k x = Inr (JObj (AList.update k x kvs))"
| "set_prop (JArr xs) k x = Inl Unsupported"
| "set_prop v k x = Inl TypeError"

text \<open>The abstract operation ToString.\<close>

fun join_comma :: "string list \<Rightarrow> string" where
  "join_comma [] = []"
| "join_comma [s] = s"
| "join_comma (s # t # ss) = s @ CHR '','' # join_comma (t # ss)"

fun js_toString :: "jsval \<Rightarrow> string" where
  "js_toString JUndef = ''undefined''"
| "js_toString JNull = ''null''"
| "js_toString (JBool b) = (if b then ''true'' else ''false'')"
| "js_toString (JNum n) = show_int n"
| "js_toString JNaN = ''NaN''"
| "js_toString (JFloat s) = s"
| "js_toString (JStr s) = s"
| "js_toString (JArr xs) = join_comma (map (\<lambda>x. if nullish x then [] else js_toString x) xs)"
| "js_toString (JObj kvs) = ''[object Object]''"

text \<open>
  \<open>parseInt(v, 10)\<close>: ToString, then leading white space is dropped (the ASCII white
  space characters here), one sign is read, and the longest prefix of decimal digits is
  the value; NaN when there is no digit.
\<close>

definition is_ws :: "char \<Rightarrow> bool" where
  "is_ws c = (c \<in> set [CHR '' '', CHR 0x09, CHR 0x0A, CHR 0x0B, CHR 0x0C, CHR 0x0D])"

definition is_digit :: "char \<Rightarrow> bool" where
  "is_digit c = (c \<in> set ''0123456789'')"

definition digit_val :: "char \<Rightarrow> nat" where
  "digit_val c = of_char c - 48"

definition digits_val :: "string \<Rightarrow> nat" where
  "digits_val ds = foldl (\<lambda>a c. 10 * a + digit_val c) 0 ds"

definition parse_digits :: "int \<Rightarrow> string \<Rightarrow> jsval" where
  "parse_digits sign s =
     (let ds = takeWhile is_digit s in if ds = [] then JNaN else JNum (sign * int (digits_val ds)))"

definition parse_int_str :: "string \<Rightarrow> jsval" where
  "parse_int_str s =
     (case dropWhile is_ws s of
        [] \<Rightarrow> JNaN
      | c # r \<Rightarrow>
          if c = CHR ''-'' then parse_digits (- 1) r
          else if c = CHR ''+'' then parse_digits 1 r
          else parse_digits 1 (c # r))"

definition js_parseInt :: "jsval \<Rightarrow> jsval" where
  "js_parseInt v = parse_int_str (js_toString v)"

section \<open>The host's side\<close>

text \<open>
  A bid request is the host's object; the adapter reads the members below and no other,
  and a member that is missing reads as \<open>undefined\<close>. \<open>getFloor\<close> is the host's floor module:
  \<open>None\<close> when the member is not a function (\<open>utils.isFn\<close>), else the function, which
  returns a value or throws and does not touch the bid request.
\<close>

record bid_request =
  bidId :: jsval
  params :: jsval
  mediaTypes :: jsval
  getFloor :: "(jsval \<Rightarrow> js_error + jsval) option"
  refererInfo :: jsval
  schain :: jsval
  gdprConsent :: jsval
  uspConsent :: jsval

text \<open>The page: \<open>window.location.hostname\<close>, \<open>window.location.href\<close>, \<open>document.location.protocol\<close>.\<close>

record page =
  hostname :: string
  href :: string
  protocol :: string

text \<open>
  A server request as \<open>buildRequests\<close> returns it. \<open>data\<close> is the object handed to
  \<open>JSON.stringify\<close>; the serialisation to text is not modelled.
\<close>

record server_request =
  http_method :: string
  url :: string
  data :: jsval

section \<open>Constants\<close>

definition ENDPOINT_URL :: string where
  "ENDPOINT_URL = ''https://x.videobyte.com/ortb''"

definition DEFAULT_BID_TTL :: jsval where
  "DEFAULT_BID_TTL = JNum 30"

definition DEFAULT_CURRENCY :: jsval where
  "DEFAULT_CURRENCY = JStr ''USD''"

definition DEFAULT_NET_REVENUE :: jsval where
  "DEFAULT_NET_REVENUE = JBool True"

definition VIDEO_ORTB_PARAMS :: "string list" where
  "VIDEO_ORTB_PARAMS =
     [''mimes'', ''minduration'', ''maxduration'', ''placement'', ''protocols'',
      ''startdelay'', ''skip'', ''skipafter'', ''minbitrate'', ''maxbitrate'',
      ''delivery'', ''playbackmethod'', ''api'', ''linearity'']"

section \<open>Helpers of the host's utils module\<close>

text \<open>
  The adapter imports \<open>utils\<close> from the host; that module is not among the source
  files. \<open>utils.isFn\<close> is the \<open>option\<close> of \<open>getFloor\<close> above, the logging functions
  (\<open>utils.logMessage\<close>, \<open>utils.logError\<close>) have no effect on any result and are left
  out, and \<open>utils.deepSetValue\<close> is modelled from the spec, which asks for deep-set
  semantics: the value is written at a dotted path, intermediate objects are created
  where they are absent, and the other members of every object on the way stay.
\<close>

text \<open>
  Modelled from the spec: the split of a dotted path into its names, inside the missing
  \<open>utils.deepSetValue\<close>.
\<close>

fun split_on :: "char \<Rightarrow> string \<Rightarrow> string list" where
  "split_on d [] = [[]]"
| "split_on d (c # cs) =
     (if c = d then [] # split_on d cs
      else (case split_on d cs of [] \<Rightarrow> [[c]] | w # ws \<Rightarrow> (c # w) # ws))"

text \<open>
  Modelled from the spec: the object to descend into at a name, inside the missing
  \<open>utils.deepSetValue\<close>; a fresh object where the member is absent. A member that is
  there and is not an object counts as absent: the adapter writes into a request object
  that it has just built, where that does not occur.
\<close>

definition child :: "(string \<times> jsval) list \<Rightarrow> string \<Rightarrow> (string \<times> jsval) list" where
  "child obj k = (case map_of obj k of Some (JObj c) \<Rightarrow> c | _ \<Rightarrow> [])"

text \<open>
  Modelled from the spec: the write at a path of names, inside the missing
  \<open>utils.deepSetValue\<close>. Only the member on the path changes at each level.
\<close>

fun deep_set :: "(string \<times> jsval) list \<Rightarrow> string list \<Rightarrow> jsval \<Rightarrow> (string \<times> jsval) list" where
  "deep_set obj [] v = obj"
| "deep_set obj [k] v = AList.update k v obj"
| "deep_set obj (k # k' # ks) v = AList.update k (JObj (deep_set (child obj k) (k' # ks) v)) obj"

text \<open>
  Modelled from the spec: \<open>utils.deepSetValue(obj, path, value)\<close>, which is missing; the
  result is the object after the write.
\<close>

definition deepSetValue :: "(string \<times> jsval) list \<Rightarrow> string \<Rightarrow> jsval \<Rightarrow> (string \<times> jsval) list" where
  "deepSetValue obj path v = deep_set obj (split_on CHR ''.'' path) v"

text \<open>The member at a path of own properties, \<open>None\<close> when a step of the path is absent.\<close>

fun own_path :: "jsval \<Rightarrow> string list \<Rightarrow> jsval option" where
  "own_path v [] = Some v"
| "own_path v (k # ks) = (case own v k of None \<Rightarrow> None | Some c \<Rightarrow> own_path c ks)"

section \<open>The adapter\<close>

subsection \<open>validateVideo\<close>

text \<open>
  The test \<open>bidRequest.params.video && bidRequest.params.video.e2etest\<close> of
  \<open>buildRequests\<close> and \<open>buildRequestData\<close>, which read \<open>params\<close> unguarded.
\<close>

definition e2etest :: "bid_request \<Rightarrow> js_error + bool" where
  "e2etest bidRequest =
     bind (get_prop (params bidRequest) ''video'') (\<lambda>video.
     if truthy video then bind (get_prop video ''e2etest'') (\<lambda>t. Inr (truthy t))
     else Inr False)"

definition isArray :: "jsval \<Rightarrow> bool" where
  "isArray v = (case v of JArr xs \<Rightarrow> True | _ \<Rightarrow> False)"

text \<open>
  \<open>validateVideo\<close>, which is \<open>isBidRequestValid\<close>. Its first test guards
  \<open>bidRequest.params\<close>; the later reads of \<open>bidRequest.mediaTypes.video\<close> and
  \<open>bidRequest.params.publisherId\<close> are not guarded.
\<close>

definition validateVideo :: "bid_request \<Rightarrow> js_error + bool" where
  "validateVideo bidRequest =
     bind (if truthy (params bidRequest) then e2etest bidRequest else Inr False) (\<lambda>bypass.
     if bypass then Inr True else
     bind (get_prop (mediaTypes bidRequest) ''video'') (\<lambda>mediaTypesVideo.
     if mediaTypesVideo = JUndef then Inr False else
     bind (get_prop (params bidRequest) ''publisherId'') (\<lambda>publisherId.
     if \<not> truthy publisherId then Inr False else
     bind (get_prop mediaTypesVideo ''context'') (\<lambda>context.
     if \<not> truthy context then Inr False else
     if context \<noteq> JStr ''instream'' then Inr False else
     bind (get_prop mediaTypesVideo ''playerSize'') (\<lambda>playerSize.
     if playerSize = JUndef \<or> \<not> isArray playerSize then Inr False else Inr True)))))"

definition isBidRequestValid :: "bid_request \<Rightarrow> js_error + bool" where
  "isBidRequestValid bidRequest = validateVideo bidRequest"

subsection \<open>buildRequestData\<close>

text \<open>
  Lines 112 to 115: in test mode the builder assigns to \<open>mediaTypes.video\<close>, which is
  the host's object; the result is the bid request after the two assignments (the second
  one writes a member named \<open>conext\<close>).
\<close>

definition e2etest_override :: "bid_request \<Rightarrow> js_error + bid_request" where
  "e2etest_override bidRequest =
     bind (e2etest bidRequest) (\<lambda>t.
     if \<not> t then Inr bidRequest else
     bind (get_prop (mediaTypes bidRequest) ''video'') (\<lambda>video.
     bind (set_prop video ''playerSize'' (JArr [JArr [JNum 640, JNum 480]])) (\<lambda>video1.
     bind (set_prop video1 ''conext'' (JStr ''instream'')) (\<lambda>video2.
     bind (set_prop (mediaTypes bidRequest) ''video'' video2) (\<lambda>mediaTypes'.
     Inr (bidRequest\<lparr>mediaTypes := mediaTypes'\<rparr>))))))"

text \<open>Lines 117 to 120: \<open>w\<close> and \<open>h\<close> from \<open>mediaTypes.video.playerSize[0]\<close>.\<close>

definition video_size :: "jsval \<Rightarrow> js_error + (string \<times> jsval) list" where
  "video_size mediaTypes' =
     bind (get_prop mediaTypes' ''video'') (\<lambda>video.
     bind (get_prop video ''playerSize'') (\<lambda>playerSize.
     bind (get_index playerSize 0) (\<lambda>size0.
     bind (get_index size0 0) (\<lambda>w.
     bind (get_index size0 1) (\<lambda>h.
     Inr [(''w'', js_parseInt w), (''h'', js_parseInt h)])))))"

text \<open>Lines 123 to 127: the loop over \<open>VIDEO_ORTB_PARAMS\<close>.\<close>

definition copy_param :: "jsval \<Rightarrow> string \<Rightarrow> (string \<times> jsval) list \<Rightarrow> (string \<times> jsval) list" where
  "copy_param mediaTypesVideo param video =
     (if hasOwnProperty mediaTypesVideo param
      then AList.update param (prop_of mediaTypesVideo param) video else video)"

definition copy_params :: "jsval \<Rightarrow> (string \<times> jsval) list \<Rightarrow> (string \<times> jsval) list" where
  "copy_params mediaTypesVideo video = fold (copy_param mediaTypesVideo) VIDEO_ORTB_PARAMS video"

text \<open>Lines 131 to 137: the placement rules.\<close>

definition placement_rules :: "jsval \<Rightarrow> (string \<times> jsval) list \<Rightarrow> js_error + (string \<times> jsval) list" where
  "placement_rules params' video =
     (let video1 = AList.update ''placement'' (js_or (lookup video ''placement'') (JNum 2)) video in
      bind (get_prop params' ''context'') (\<lambda>context.
      if context = JStr ''instream''
      then Inr (AList.update ''placement'' (JNum 1)
                 (AList.update ''startdelay'' (js_or (lookup video1 ''startdelay'') (JNum 0)) video1))
      else Inr video1))"

text \<open>Lines 140 to 148: the floor.\<close>

definition floorData :: "bid_request \<Rightarrow> js_error + jsval" where
  "floorData bidRequest =
     bind (get_prop (params bidRequest) ''cur'') (\<lambda>cur.
     let bidFloorRequest =
           JObj [(''currency'', js_or cur (JStr ''USD'')),
                 (''mediaType'', JStr ''video''),
                 (''size'', JStr ''*'')]
     in case getFloor bidRequest of
          None \<Rightarrow> Inr (params bidRequest)
        | Some f \<Rightarrow> f bidFloorRequest)"

definition isSecure :: "page \<Rightarrow> bool" where
  "isSecure pg = (protocol pg = ''https:'')"

text \<open>Lines 150 to 166: the request object.\<close>

definition openrtbRequest :: "page \<Rightarrow> bid_request \<Rightarrow> (string \<times> jsval) list \<Rightarrow> jsval \<Rightarrow>
    js_error + (string \<times> jsval) list" where
  "openrtbRequest pg bidRequest video floorData' =
     bind (get_prop floorData' ''floor'') (\<lambda>floor.
     bind (get_prop floorData' ''currency'') (\<lambda>currency.
     bind (if truthy (refererInfo bidRequest)
           then bind (get_prop (refererInfo bidRequest) ''referer'') (\<lambda>r. Inr (js_or r JNull))
           else Inr JNull) (\<lambda>ref.
     Inr [(''id'', bidId bidRequest),
          (''imp'', JArr [JObj [(''id'', JStr ''1''),
                                (''video'', JObj video),
                                (''secure'', JNum (if isSecure pg then 1 else 0)),
                                (''bidfloor'', floor),
                                (''bidfloorcur'', currency)]]),
          (''site'', JObj [(''domain'', JStr (hostname pg)),
                           (''page'', JStr (href pg)),
                           (''ref'', ref)])])))"

text \<open>Lines 168 to 182: the three extensions.\<close>

definition add_schain :: "bid_request \<Rightarrow> (string \<times> jsval) list \<Rightarrow> (string \<times> jsval) list" where
  "add_schain bidRequest req =
     (if truthy (schain bidRequest)
      then deepSetValue req ''source.ext.schain'' (schain bidRequest) else req)"

definition add_gdpr :: "bid_request \<Rightarrow> (string \<times> jsval) list \<Rightarrow> js_error + (string \<times> jsval) list" where
  "add_gdpr bidRequest req =
     (if truthy (gdprConsent bidRequest)
      then bind (get_prop (gdprConsent bidRequest) ''consentString'') (\<lambda>consentString.
           bind (get_prop (gdprConsent bidRequest) ''gdprApplies'') (\<lambda>gdprApplies.
           Inr (deepSetValue (deepSetValue req ''user.ext.consent'' consentString)
                  ''regs.ext.gdpr'' (JNum (if truthy gdprApplies then 1 else 0)))))
      else Inr req)"

definition add_usp :: "bid_request \<Rightarrow> (string \<times> jsval) list \<Rightarrow> (string \<times> jsval) list" where
  "add_usp bidRequest req =
     (if truthy (uspConsent bidRequest)
      then deepSetValue req ''regs.ext.us_privacy'' (uspConsent bidRequest) else req)"

text \<open>
  The part of \<open>buildRequestData\<close> after the test-mode assignments, which reads the bid
  request and writes only objects of its own.
\<close>

definition requestData :: "page \<Rightarrow> bid_request \<Rightarrow> js_error + jsval" where
  "requestData pg bidRequest =
     bind (video_size (mediaTypes bidRequest)) (\<lambda>video0.
     bind (get_prop (mediaTypes bidRequest) ''video'') (\<lambda>mediaTypesVideo.
     bind (placement_rules (params bidRequest) (copy_params mediaTypesVideo video0)) (\<lambda>video.
     bind (floorData bidRequest) (\<lambda>floorData'.
     bind (openrtbRequest pg bidRequest video floorData') (\<lambda>req.
     bind (add_gdpr bidRequest (add_schain bidRequest req)) (\<lambda>req'.
     Inr (JObj (add_usp bidRequest req'))))))))"

text \<open>
  \<open>buildRequestData\<close>: what it returns or throws, and the bid request as it leaves it.
\<close>

definition buildRequestData :: "page \<Rightarrow> bid_request \<Rightarrow> (js_error + jsval) \<times> bid_request" where
  "buildRequestData pg bidRequest =
     (case e2etest_override bidRequest of
        Inl e \<Rightarrow> (Inl e, bidRequest)
      | Inr bidRequest' \<Rightarrow> (requestData pg bidRequest', bidRequest'))"

subsection \<open>buildRequests\<close>

text \<open>Lines 52 to 64: the function mapped over the bid requests.\<close>

definition publisherId :: "bid_request \<Rightarrow> js_error + jsval" where
  "publisherId bidRequest =
     bind (get_prop (params bidRequest) ''publisherId'') (\<lambda>p.
     bind (e2etest bidRequest) (\<lambda>t.
     Inr (if t then JStr ''e2etest'' else p)))"

definition build :: "page \<Rightarrow> bid_request \<Rightarrow> (js_error + server_request) \<times> bid_request" where
  "build pg bidRequest =
     (case publisherId bidRequest of
        Inl e \<Rightarrow> (Inl e, bidRequest)
      | Inr p \<Rightarrow>
          (case buildRequestData pg bidRequest of (r, bidRequest') \<Rightarrow>
             (bind r (\<lambda>body. Inr \<lparr>http_method = ''POST'',
                                   url = ENDPOINT_URL @ ''/'' @ js_toString p,
                                   data = body\<rparr>),
              bidRequest')))"

text \<open>
  \<open>Array.prototype.map\<close> with that function: the first exception ends the call. The
  second component is the list of bid requests afterwards.
\<close>

fun build_all :: "page \<Rightarrow> bid_request list \<Rightarrow> (js_error + server_request list) \<times> bid_request list" where
  "build_all pg [] = (Inr [], [])"
| "build_all pg (b # bs) =
     (case build pg b of
        (Inl e, b') \<Rightarrow> (Inl e, b' # bs)
      | (Inr r, b') \<Rightarrow>
          (case build_all pg bs of (rs, bs') \<Rightarrow> (bind rs (\<lambda>rs'. Inr (r # rs')), b' # bs')))"

text \<open>
  \<open>buildRequests\<close>; the argument \<open>None\<close> is a missing list of bid requests, for which it
  returns \<open>undefined\<close>, here \<open>None\<close>.
\<close>

definition buildRequests :: "page \<Rightarrow> bid_request list option \<Rightarrow>
    (js_error + server_request list option) \<times> bid_request list option" where
  "buildRequests pg bidRequests =
     (case bidRequests of
        None \<Rightarrow> (Inr None, None)
      | Some bs \<Rightarrow>
          (case build_all pg bs of (rs, bs') \<Rightarrow> (bind rs (\<lambda>rs'. Inr (Some rs')), Some bs')))"

subsection \<open>interpretResponse\<close>

text \<open>Lines 79 to 97: the bid made of the response and its one bid.\<close>

definition bidResponse :: "jsval \<Rightarrow> jsval \<Rightarrow> js_error + jsval" where
  "bidResponse response bid =
     bind (get_prop response ''id'') (\<lambda>id'.
     bind (get_prop bid ''price'') (\<lambda>price.
     bind (get_prop bid ''w'') (\<lambda>w.
     bind (get_prop bid ''h'') (\<lambda>h.
     bind (get_prop bid ''adm'') (\<lambda>adm.
     bind (get_prop bid ''crid'') (\<lambda>crid.
     bind (get_prop bid ''adomain'') (\<lambda>adomain.
     let bidResponse0 =
           [(''requestId'', id'),
            (''cpm'', price),
            (''width'', w),
            (''height'', h),
            (''ad'', adm),
            (''ttl'', DEFAULT_BID_TTL),
            (''creativeId'', crid),
            (''netRevenue'', DEFAULT_NET_REVENUE),
            (''currency'', DEFAULT_CURRENCY),
            (''mediaType'', JStr ''video''),
            (''meta'', JObj [(''adomain'', adomain)])]
     in Inr (JObj (if truthy adm then AList.update ''vastXml'' adm bidResponse0
                   else bidResponse0)))))))))"

text \<open>
  \<open>interpretResponse\<close>; its second argument is not used. The tests of line 78 are read
  from left to right and stop at the first that fails.
\<close>

definition interpretResponse :: "jsval \<Rightarrow> bid_request \<Rightarrow> js_error + jsval list" where
  "interpretResponse serverResponse bidRequest =
     bind (get_prop (js_or serverResponse (JObj [])) ''body'') (\<lambda>response.
     if \<not> truthy response then Inr [] else
     bind (get_prop response ''seatbid'') (\<lambda>seatbid.
     if \<not> truthy seatbid then Inr [] else
     bind (get_prop seatbid ''length'') (\<lambda>n.
     if n \<noteq> JNum 1 then Inr [] else
     bind (get_index seatbid 0) (\<lambda>seat.
     bind (get_prop seat ''bid'') (\<lambda>bids.
     if \<not> truthy bids then Inr [] else
     bind (get_prop bids ''length'') (\<lambda>m.
     if m \<noteq> JNum 1 then Inr [] else
     bind (get_index bids 0) (\<lambda>bid.
     bind (bidResponse response bid) (\<lambda>b.
     Inr [b]))))))))"

section \<open>Notions used to state the properties\<close>

text \<open>
  The value of the first test of \<open>validateVideo\<close>,
  \<open>bidRequest.params && bidRequest.params.video && bidRequest.params.video.e2etest\<close>:
  the test mode of a bid request.
\<close>

definition e2etest_bypass :: "bid_request \<Rightarrow> bool" where
  "e2etest_bypass bidRequest =
     (truthy (params bidRequest) \<and> truthy (prop_of (params bidRequest) ''video'') \<and>
      truthy (prop_of (prop_of (params bidRequest) ''video'') ''e2etest''))"

definition is_object :: "jsval \<Rightarrow> bool" where
  "is_object v = (case v of JObj kvs \<Rightarrow> True | _ \<Rightarrow> False)"





text \<open>
  A response with a body that has exactly one seat, which has exactly one bid: the body
  and that bid.
\<close>

definition single_bid :: "jsval \<Rightarrow> (jsval \<times> jsval) option" where
  "single_bid serverResponse =
     (case prop_of (prop_of serverResponse ''body'') ''seatbid'' of
        JArr [seat] \<Rightarrow>
          (case prop_of seat ''bid'' of
             JArr [bid] \<Rightarrow> Some (prop_of serverResponse ''body'', bid)
           | _ \<Rightarrow> None)
      | _ \<Rightarrow> None)"






section \<open>Example inputs\<close>


text \<open>A bid request whose video context is \<open>outstream\<close>.\<close>

definition outstream_request :: bid_request where
  "outstream_request =
     \<lparr>bidId = JStr ''b1'',
      params = JObj [(''publisherId'', JStr ''pub'')],
      mediaTypes = JObj [(''video'', JObj [(''context'', JStr ''outstream''),
                                           (''playerSize'', JArr [JArr [JNum 640, JNum 480]])])],
      getFloor = None, refererInfo = JUndef, schain = JUndef, gdprConsent = JUndef,
      uspConsent = JUndef\<rparr>"

text \<open>A bid request without \<open>mediaTypes\<close>.\<close>

definition request_without_mediaTypes :: bid_request where
  "request_without_mediaTypes =
     \<lparr>bidId = JStr ''b1'',
      params = JObj [(''publisherId'', JStr ''pub'')],
      mediaTypes = JUndef,
      getFloor = None, refererInfo = JUndef, schain = JUndef, gdprConsent = JUndef,
      uspConsent = JUndef\<rparr>"

text \<open>A bid request in test mode whose \<open>mediaTypes\<close> has no \<open>video\<close>.\<close>

definition e2etest_without_video :: bid_request where
  "e2etest_without_video =
     \<lparr>bidId = JStr ''b1'',
      params = JObj [(''video'', JObj [(''e2etest'', JBool True)])],
      mediaTypes = JObj [],
      getFloor = None, refererInfo = JUndef, schain = JUndef, gdprConsent = JUndef,
      uspConsent = JUndef\<rparr>"

text \<open>A bid request whose player size is the empty array.\<close>

definition empty_playerSize_request :: bid_request where
  "empty_playerSize_request =
     \<lparr>bidId = JStr ''b1'',
      params = JObj [(''publisherId'', JStr ''pub'')],
      mediaTypes = JObj [(''video'', JObj [(''context'', JStr ''instream''),
                                           (''playerSize'', JArr [])])],
      getFloor = None, refererInfo = JUndef, schain = JUndef, gdprConsent = JUndef,
      uspConsent = JUndef\<rparr>"

text \<open>A response with one seat and one bid, and a response with two seats.\<close>

definition example_bid :: jsval where
  "example_bid =
     JObj [(''id'', JStr ''bid1''), (''price'', JFloat ''2.5''), (''w'', JNum 640), (''h'', JNum 480),
           (''adm'', JStr ''<VAST/>''), (''crid'', JStr ''c1''),
           (''adomain'', JArr [JStr ''x.com''])]"

definition example_response :: jsval where
  "example_response =
     JObj [(''body'',
        JObj [(''id'', JStr ''auction1''),
              (''seatbid'', JArr [JObj [(''bid'', JArr [example_bid])]])])]"





section \<open>Reading and writing values\<close>

lemma bind_Inr [simp]: "bind (Inr x) f = f x"
  by (simp add: bind_def)

lemma bind_Inl [simp]: "bind (Inl e) f = Inl e"
  by (simp add: bind_def)

lemma truthy_not_nullish [simp]: "truthy v \<Longrightarrow> \<not> nullish v"
  by (cases v) simp_all

lemma is_object_not_nullish [simp]: "is_object v \<Longrightarrow> \<not> nullish v"
  by (cases v) (simp_all add: is_object_def)

lemma get_prop_simps [simp]:
  "get_prop (JObj kvs) k = Inr (lookup kvs k)"
  "get_prop JUndef k = Inl TypeError"
  "get_prop JNull k = Inl TypeError"
  "\<not> nullish v \<Longrightarrow> get_prop v k = Inr (prop_of v k)"
  by (simp_all add: get_prop_def)

lemma get_index_simps [simp]:
  "get_index (JArr xs) i = Inr (if i < length xs then xs ! i else JUndef)"
  "get_index JUndef i = Inl TypeError"
  "get_index JNull i = Inl TypeError"
  "\<not> nullish v \<Longrightarrow> get_index v i = Inr (elem_of v i)"
  by (simp_all add: get_index_def)

lemma lookup_simps [simp]:
  "lookup [] k = JUndef"
  "lookup ((k', v) # kvs) k = (if k' = k then v else lookup kvs k)"
  by (simp_all add: lookup_def)

lemma lookup_update [simp]:
  "lookup (AList.update k v kvs) k' = (if k' = k then v else lookup kvs k')"
  by (simp add: lookup_def update_conv')

lemma prop_of_array_object: "prop_of v k = JArr xs \<Longrightarrow> k \<noteq> ''length'' \<Longrightarrow> is_object v"
  by (cases v) (auto simp add: is_object_def split: if_splits)

section \<open>The test mode\<close>

lemma guard_bypass:
  "(if truthy (params r) then e2etest r else Inr False) = Inr (e2etest_bypass r)"
  by (auto simp add: e2etest_def e2etest_bypass_def)

lemma e2etest_eq:
  "e2etest r = (if nullish (params r) then Inl TypeError else Inr (e2etest_bypass r))"
  by (cases "params r") (auto simp add: e2etest_def e2etest_bypass_def)

section \<open>validateVideo\<close>



text \<open>
  A bid request that is not in test mode and has no \<open>mediaTypes\<close> makes
  \<open>validateVideo\<close> throw; with \<open>mediaTypes\<close> and no \<open>video\<close> in it, the result is
  \<open>false\<close>.
\<close>

lemma validateVideo_no_mediaTypes:
  "\<not> e2etest_bypass r \<Longrightarrow> nullish (mediaTypes r) \<Longrightarrow> validateVideo r = Inl TypeError"
  by (simp add: validateVideo_def guard_bypass get_prop_def)

lemma validateVideo_no_video:
  "\<not> e2etest_bypass r \<Longrightarrow> \<not> nullish (mediaTypes r) \<Longrightarrow>
   prop_of (mediaTypes r) ''video'' = JUndef \<Longrightarrow> validateVideo r = Inr False"
  by (simp add: validateVideo_def guard_bypass)

text \<open>
  C6. The claim is that \<open>validateVideo\<close> returns \<open>false\<close>, and does not throw, for every
  bid request out of test mode in which \<open>mediaTypes.video\<close> is absent, also when
  \<open>mediaTypes\<close> itself is absent. On the bid request below, which has a publisher id and
  no \<open>mediaTypes\<close>, the read \<open>bidRequest.mediaTypes.video\<close> of line 191 throws a
  \<open>TypeError\<close>.
\<close>

theorem validateVideo_throws_without_mediaTypes:
  "validateVideo request_without_mediaTypes = Inl TypeError"
  by (simp add: validateVideo_def e2etest_eq e2etest_bypass_def request_without_mediaTypes_def)

section \<open>interpretResponse\<close>



lemma single_bid_SomeD:
  assumes "single_bid sr = Some (response, bid)"
  shows "response = prop_of sr ''body''"
    and "\<exists>seat. prop_of response ''seatbid'' = JArr [seat] \<and> prop_of seat ''bid'' = JArr [bid]"
  using assms
  by (auto simp add: single_bid_def split: jsval.splits list.splits)

lemma single_bid_response_object:
  assumes "single_bid sr = Some (response, bid)"
  shows "is_object response"
proof -
  from single_bid_SomeD[OF assms] obtain seat where "prop_of response ''seatbid'' = JArr [seat]"
    by blast
  then show ?thesis by (rule prop_of_array_object) simp
qed

text \<open>With one seat and one bid that is not \<open>null\<close>, line 78 passes.\<close>

lemma interpret_single:
  assumes "single_bid sr = Some (response, bid)" and "\<not> nullish bid"
  shows "interpretResponse sr req = bind (bidResponse response bid) (\<lambda>b. Inr [b])"
proof -
  from single_bid_SomeD[OF assms(1)] obtain seat where
    r: "response = prop_of sr ''body''" and
    s: "prop_of response ''seatbid'' = JArr [seat]" and b: "prop_of seat ''bid'' = JArr [bid]"
    by blast
  have o1: "is_object response" using s by (rule prop_of_array_object) simp
  have o2: "is_object seat" using b by (rule prop_of_array_object) simp
  have o3: "is_object sr" using o1 r by (cases sr) (auto simp add: is_object_def)
  have t: "truthy sr" "truthy response"
    using o1 o3 by (cases sr; cases response; simp add: is_object_def)+
  show ?thesis
    using r s b o1 o2 t assms(2)
    by (simp add: interpretResponse_def js_or_def)
qed





text \<open>
  C4. For an accepted response (a body with exactly one seat, which has exactly one bid,
  the bid not \<open>null\<close>), the one bid that \<open>interpretResponse\<close> returns has
  \<open>requestId\<close> the \<open>id\<close> of the body (not of the bid), \<open>cpm\<close> the bid's \<open>price\<close>,
  \<open>width\<close> and \<open>height\<close> its \<open>w\<close> and \<open>h\<close>, \<open>ad\<close> its \<open>adm\<close>, \<open>ttl\<close> 30,
  \<open>creativeId\<close> its \<open>crid\<close>, \<open>netRevenue\<close> true, \<open>currency\<close> USD, \<open>mediaType\<close>
  video and \<open>meta.adomain\<close> its \<open>adomain\<close>; \<open>vastXml\<close> is the bid's \<open>adm\<close> when that is
  present (truthy, as line 95 tests it) and is no member of the bid otherwise.
\<close>

theorem interpretResponse_bid_fields:
  assumes "single_bid sr = Some (response, bid)" and "\<not> nullish bid"
  shows "\<exists>b. interpretResponse sr req = Inr [b] \<and>
     own b ''requestId'' = Some (prop_of response ''id'') \<and>
     own b ''cpm'' = Some (prop_of bid ''price'') \<and>
     own b ''width'' = Some (prop_of bid ''w'') \<and>
     own b ''height'' = Some (prop_of bid ''h'') \<and>
     own b ''ad'' = Some (prop_of bid ''adm'') \<and>
     own b ''ttl'' = Some (JNum 30) \<and>
     own b ''creativeId'' = Some (prop_of bid ''crid'') \<and>
     own b ''netRevenue'' = Some (JBool True) \<and>
     own b ''currency'' = Some (JStr ''USD'') \<and>
     own b ''mediaType'' = Some (JStr ''video'') \<and>
     own_path b [''meta'', ''adomain''] = Some (prop_of bid ''adomain'') \<and>
     own b ''vastXml'' = (if truthy (prop_of bid ''adm'') then Some (prop_of bid ''adm'') else None)"
proof -
  define b0 where "b0 =
     [(''requestId'', prop_of response ''id''),
      (''cpm'', prop_of bid ''price''),
      (''width'', prop_of bid ''w''),
      (''height'', prop_of bid ''h''),
      (''ad'', prop_of bid ''adm''),
      (''ttl'', DEFAULT_BID_TTL),
      (''creativeId'', prop_of bid ''crid''),
      (''netRevenue'', DEFAULT_NET_REVENUE),
      (''currency'', DEFAULT_CURRENCY),
      (''mediaType'', JStr ''video''),
      (''meta'', JObj [(''adomain'', prop_of bid ''adomain'')])]"
  define kvs where "kvs =
     (if truthy (prop_of bid ''adm'') then AList.update ''vastXml'' (prop_of bid ''adm'') b0 else b0)"
  have nr: "\<not> nullish response"
    using single_bid_response_object[OF assms(1)] by simp
  have "bidResponse response bid = Inr (JObj kvs)"
    using nr assms(2) by (simp add: bidResponse_def Let_def kvs_def b0_def)
  then have res: "interpretResponse sr req = Inr [JObj kvs]"
    using interpret_single[OF assms] by simp
  have other: "map_of kvs k = map_of b0 k" if "k \<noteq> ''vastXml''" for k
    using that by (simp add: kvs_def update_conv')
  have f1: "own (JObj kvs) ''requestId'' = Some (prop_of response ''id'')"
    by (simp add: other) (simp add: b0_def)
  have f2: "own (JObj kvs) ''cpm'' = Some (prop_of bid ''price'')"
    by (simp add: other) (simp add: b0_def)
  have f3: "own (JObj kvs) ''width'' = Some (prop_of bid ''w'')"
    by (simp add: other) (simp add: b0_def)
  have f4: "own (JObj kvs) ''height'' = Some (prop_of bid ''h'')"
    by (simp add: other) (simp add: b0_def)
  have f5: "own (JObj kvs) ''ad'' = Some (prop_of bid ''adm'')"
    by (simp add: other) (simp add: b0_def)
  have f6: "own (JObj kvs) ''ttl'' = Some (JNum 30)"
    by (simp add: other) (simp add: b0_def DEFAULT_BID_TTL_def)
  have f7: "own (JObj kvs) ''creativeId'' = Some (prop_of bid ''crid'')"
    by (simp add: other) (simp add: b0_def)
  have f8: "own (JObj kvs) ''netRevenue'' = Some (JBool True)"
    by (simp add: other) (simp add: b0_def DEFAULT_NET_REVENUE_def)
  have f9: "own (JObj kvs) ''currency'' = Some (JStr ''USD'')"
    by (simp add: other) (simp add: b0_def DEFAULT_CURRENCY_def)
  have f10: "own (JObj kvs) ''mediaType'' = Some (JStr ''video'')"
    by (simp add: other) (simp add: b0_def)
  have f11: "own_path (JObj kvs) [''meta'', ''adomain''] = Some (prop_of bid ''adomain'')"
    by (simp add: other) (simp add: b0_def)
  have "map_of b0 ''vastXml'' = None"
    by (simp add: b0_def)
  then have f12: "own (JObj kvs) ''vastXml'' =
      (if truthy (prop_of bid ''adm'') then Some (prop_of bid ''adm'') else None)"
    by (simp add: kvs_def update_conv')
  from res f1 f2 f3 f4 f5 f6 f7 f8 f9 f10 f11 f12 show ?thesis
    by blast
qed

theorem interpretResponse_bid_fields_witness:
  "single_bid example_response = Some (prop_of example_response ''body'', example_bid) \<and>
   \<not> nullish example_bid \<and>
   (\<exists>b. interpretResponse example_response outstream_request = Inr [b] \<and>
      own b ''requestId'' = Some (JStr ''auction1'') \<and>
      own b ''cpm'' = Some (JFloat ''2.5'') \<and>
      own b ''ttl'' = Some (JNum 30) \<and>
      own b ''vastXml'' = Some (JStr ''<VAST/>''))"
proof -
  have h1: "single_bid example_response = Some (prop_of example_response ''body'', example_bid)"
    by (simp add: single_bid_def example_response_def)
  have h2: "\<not> nullish example_bid"
    by (simp add: example_bid_def)
  have p: "prop_of (prop_of example_response ''body'') ''id'' = JStr ''auction1''"
    by (simp add: example_response_def)
  have q: "prop_of example_bid ''price'' = JFloat ''2.5''" "prop_of example_bid ''adm'' = JStr ''<VAST/>''"
    by (simp_all add: example_bid_def)
  from interpretResponse_bid_fields [OF h1 h2, of outstream_request] h1 h2 p q show ?thesis
    by auto
qed

section \<open>parseInt\<close>












section \<open>buildRequestData and buildRequests\<close>


































































text \<open>\<open>buildRequests\<close> on no list and on a list of one bid request.\<close>

lemma buildRequests_None: "buildRequests pg None = (Inr None, None)"
  by (simp add: buildRequests_def)

lemma buildRequests_single:
  "buildRequests pg (Some [r]) =
     (case build pg r of
        (Inl e, r') \<Rightarrow> (Inl e, Some [r'])
      | (Inr d, r') \<Rightarrow> (Inr (Some [d]), Some [r']))"
  by (simp add: buildRequests_def split: prod.splits sum.splits)

text \<open>
  C10. Two bid requests that \<open>validateVideo\<close> accepts and on which \<open>build\<close> throws a
  \<open>TypeError\<close>, whatever the page: one in test mode whose \<open>mediaTypes\<close> has no
  \<open>video\<close> (line 113 assigns to \<open>mediaTypes.video.playerSize\<close>), and one whose
  player size is the empty array (line 118 reads \<open>playerSize[0][0]\<close>). So a bid request
  that is valid need not be one for which \<open>build\<close> returns.
\<close>

theorem valid_requests_on_which_build_throws:
  "validateVideo e2etest_without_video = Inr True \<and>
   fst (build pg e2etest_without_video) = Inl TypeError \<and>
   validateVideo empty_playerSize_request = Inr True \<and>
   fst (build pg empty_playerSize_request) = Inl TypeError"
proof (intro conjI)
  show "validateVideo e2etest_without_video = Inr True"
    by (simp add: validateVideo_def e2etest_eq e2etest_bypass_def e2etest_without_video_def)
  show "fst (build pg e2etest_without_video) = Inl TypeError"
    by (simp add: build_def publisherId_def e2etest_eq e2etest_bypass_def buildRequestData_def
        e2etest_override_def e2etest_without_video_def)
  show "validateVideo empty_playerSize_request = Inr True"
    by (simp add: validateVideo_def e2etest_eq e2etest_bypass_def empty_playerSize_request_def
        isArray_def)
  show "fst (build pg empty_playerSize_request) = Inl TypeError"
    by (simp add: build_def publisherId_def e2etest_eq e2etest_bypass_def buildRequestData_def
        e2etest_override_def requestData_def video_size_def empty_playerSize_request_def)
qed

end
